theory Spec2Isabelle
  imports Main
begin

section \<open>Data model of the shard server\<close>

text \<open>
  The Go structs of the server become records, one field per struct field. Go allows
  the same field name in several structs; a record field is a constant, so the fields
  carry a one-letter prefix where names would collide: \<open>c\<close> for \<open>ClientPlayload\<close>,
  \<open>s\<close> for \<open>ServerPlayload\<close>, \<open>d\<close> for \<open>DupEntry\<close>, \<open>r\<close> for \<open>doitResult\<close>,
  \<open>a\<close> for \<open>ShardMigrationArgs\<close>, \<open>m\<close> for \<open>raft.ApplyMsg\<close> and \<open>cf\<close> for the
  shard array of a \<open>Config\<close>.

  Go's \<open>int\<close> and \<open>int64\<close> values (client ids, serial numbers, group ids, log
  indices, configuration numbers) are only compared, used as indices and, in the
  applier, tested for divisibility by the code below, never added or multiplied, so
  they are HOL integers.

  A Go \<open>map[string]string\<close> is a HOL map. Every map the server holds is allocated
  (by \<open>make\<close> in \<open>StartServer\<close> and \<open>copyOfData\<close>, or by the decoder), so the model has
  no nil map to write to.
\<close>

text \<open>
  The type \<open>Err\<close> is a Go string type whose constants are declared beside the server
  code; \<open>Unset\<close> is the empty string, the zero value of a reply that nobody wrote.
\<close>

datatype Err = Unset | OK | ErrNoKey | ErrWrongGroup | ErrWrongLeader
  | ErrOutdatedConfig | ErrUpdatingConfig

datatype ShardStatus = ShardOK | ShardMigrationOut | ShardMigrationIn

text \<open>
  \<open>shardctrler.Config\<close>: \<open>Shards\<close> is the Go array \<open>[NShards]int\<close>, here a list
  whose length is \<open>NShards\<close> in every well-formed configuration.
\<close>

record Config =
  Num :: int
  cfShards :: "int list"
  Groups :: "int \<rightharpoonup> string list"

record ClientPlayload =
  cType :: string
  cKey :: string
  cValue :: string
  cShard :: int

record ServerPlayload =
  sType :: string
  sSids :: "int list"
  sData :: "(string \<rightharpoonup> string) list"
  sConfig :: Config

text \<open>
  \<open>Op.Playload\<close> is an \<open>interface{}\<close>; the code distinguishes the two payload
  structs by type switch and panics on anything else (\<open>Other\<close>).
\<close>

datatype Playload = Client ClientPlayload | Server ServerPlayload | Other

record Op =
  ClientId :: int
  SN :: int
  Playload :: Playload

record DupEntry =
  dSN :: int
  dValue :: string
  dErr :: Err

record doitResult =
  rClientId :: int
  rSN :: int
  rValue :: string
  rErr :: Err

record Shard =
  Status :: ShardStatus
  Data :: "string \<rightharpoonup> string"

text \<open>
  What the server does to its collaborators is kept as a trace: a call of
  \<open>kv.rf.Start\<close>, a non-blocking \<open>signalCh\<close> on one of the two wake channels, a send
  of a result on the reply channel registered at a log index, and a call of
  \<open>kv.rf.Snapshot\<close>.
\<close>

datatype trigger = pollTrigger | migrationTrigger

text \<open>
  Modelled from the spec: the labgob encoder and decoder are outside the sources. The
  spec says the snapshot is the triple (shards array, duplicate table, current
  configuration) in a fixed order and schema, and that any decode error is fatal. A
  blob is therefore the sequence of the values encoded into it, each tagged with its
  type; the blob of zero bytes is the empty sequence, and \<open>Decode\<close> into a variable
  takes the next value when (and only when) it has the variable's type.
\<close>

datatype gobval =
  GobShards "Shard list"
  | GobDupTable "int \<rightharpoonup> DupEntry"
  | GobConfig Config

type_synonym blob = "gobval list"

datatype event =
  Start Op
  | Signal trigger
  | Send int doitResult
  | Snapshot int blob

text \<open>
  The fields of \<open>ShardKV\<close> that the modelled functions read or write. \<open>resultCh\<close> is
  the set of log indices that have a reply channel registered.
\<close>

record ShardKV =
  gid :: int
  Shards :: "Shard list"
  DupTable :: "int \<rightharpoonup> DupEntry"
  Config :: Config
  resultCh :: "int set"
  lastApplied :: int
  trace :: "event list"

text \<open>
  A panic of the Go runtime or of the code, and \<open>log.Fatalf\<close>, end the process; the
  model returns them as values.
\<close>

datatype fault = IndexOutOfRange | UnknownOp | DecodeError

section \<open>Helpers for slices and zero values\<close>

text \<open>Reading \<open>xs[i]\<close>: the Go runtime panics outside \<open>0 \<le> i < len(xs)\<close>.\<close>

definition at :: "'a list \<Rightarrow> int \<Rightarrow> fault + 'a" where
  "at xs i = (if 0 \<le> i \<and> i < int (length xs) then Inr (xs ! nat i) else Inl IndexOutOfRange)"

text \<open>Writing through \<open>xs[i]\<close>, with the same bounds check.\<close>

definition setAt :: "'a list \<Rightarrow> int \<Rightarrow> ('a \<Rightarrow> 'a) \<Rightarrow> fault + 'a list" where
  "setAt xs i f =
     (if 0 \<le> i \<and> i < int (length xs) then Inr (xs[nat i := f (xs ! nat i)])
      else Inl IndexOutOfRange)"

text \<open>The zero value of \<open>shardctrler.Config\<close>, for an array of \<open>NShards\<close> entries.\<close>

definition zeroConfig :: "nat \<Rightarrow> Config" where
  "zeroConfig NShards = \<lparr>Num = 0, cfShards = replicate NShards 0, Groups = Map.empty\<rparr>"

text \<open>\<open>Op{}\<close> with \<open>Playload = ServerPlayload{Type: "MigrationOut"}\<close>.\<close>

definition migrationOutOp :: "nat \<Rightarrow> Op" where
  "migrationOutOp NShards =
     \<lparr>ClientId = 0, SN = 0,
      Playload = Server \<lparr>sType = ''MigrationOut'', sSids = [], sData = [],
                         sConfig = zeroConfig NShards\<rparr>\<rparr>"

text \<open>
  \<open>copyOfData\<close>: a fresh map that receives every entry of \<open>data\<close> (ranging over a nil
  map adds nothing).
\<close>

definition copyOfData :: "(string \<rightharpoonup> string) \<Rightarrow> (string \<rightharpoonup> string)" where
  "copyOfData data = Map.empty ++ data"

section \<open>The applier\<close>

subsection \<open>prepareMigration\<close>

text \<open>
  One iteration of the loop over the shard ids. The state of the loop is the shard
  array and the flag \<open>needMigration\<close>.
\<close>

definition migrateShard ::
  "int \<Rightarrow> Config \<Rightarrow> Config \<Rightarrow> nat \<Rightarrow> Shard list \<times> bool \<Rightarrow> fault + (Shard list \<times> bool)"
where
  "migrateShard g old new i st =
     (case at (cfShards old) (int i) of
        Inl e \<Rightarrow> Inl e
      | Inr oldg \<Rightarrow>
          (case at (cfShards new) (int i) of
             Inl e \<Rightarrow> Inl e
           | Inr newg \<Rightarrow>
               if oldg = newg then Inr st
               else
                 (case (if oldg = g
                        then (case setAt (fst st) (int i) (\<lambda>sh. sh\<lparr>Status := ShardMigrationOut\<rparr>) of
                                Inl e \<Rightarrow> Inl e
                              | Inr shards \<Rightarrow> Inr (shards, True))
                        else Inr st) of
                    Inl e \<Rightarrow> Inl e
                  | Inr st1 \<Rightarrow>
                      if newg = g \<and> oldg \<noteq> 0
                      then (case setAt (fst st1) (int i) (\<lambda>sh. sh\<lparr>Status := ShardMigrationIn\<rparr>) of
                              Inl e \<Rightarrow> Inl e
                            | Inr shards \<Rightarrow> Inr (shards, snd st1))
                      else Inr st1)))"

fun migrateLoop ::
  "int \<Rightarrow> Config \<Rightarrow> Config \<Rightarrow> nat list \<Rightarrow> Shard list \<times> bool \<Rightarrow> fault + (Shard list \<times> bool)"
where
  "migrateLoop g old new [] st = Inr st"
| "migrateLoop g old new (i # is) st =
     (case migrateShard g old new i st of
        Inl e \<Rightarrow> Inl e
      | Inr st' \<Rightarrow> migrateLoop g old new is st')"

definition prepareMigration :: "nat \<Rightarrow> Config \<Rightarrow> ShardKV \<Rightarrow> fault + (bool \<times> ShardKV)" where
  "prepareMigration NShards newConfig kv =
     (if Num (Config kv) \<ge> Num newConfig then Inr (False, kv)
      else
        (case migrateLoop (gid kv) (Config kv) newConfig [0..<NShards] (Shards kv, False) of
           Inl e \<Rightarrow> Inl e
         | Inr (shards, needMigration) \<Rightarrow>
             Inr (needMigration, kv\<lparr>Shards := shards, Config := newConfig\<rparr>)))"

subsection \<open>ingestCommand\<close>

text \<open>
  The local \<open>result\<close> after the look-up in the duplicate table: it starts as
  \<open>{ClientId, SN, Err: OK}\<close> and takes the cached error and value when the table holds
  an entry of the same serial. The \<open>if\<close> has no other effect: the code goes on to the
  switch in every case.
\<close>

definition dupResult :: "ShardKV \<Rightarrow> Op \<Rightarrow> doitResult" where
  "dupResult kv op =
     (let result = \<lparr>rClientId = ClientId op, rSN = SN op, rValue = [], rErr = OK\<rparr> in
      case DupTable kv (ClientId op) of
        None \<Rightarrow> result
      | Some dEntry \<Rightarrow>
          if dSN dEntry \<ge> SN op
          then (if dSN dEntry = SN op
                then result\<lparr>rErr := dErr dEntry, rValue := dValue dEntry\<rparr>
                else result)
          else result)"

text \<open>The case \<open>ClientPlayload\<close> of the switch.\<close>

definition applyClient ::
  "ClientPlayload \<Rightarrow> doitResult \<Rightarrow> ShardKV \<Rightarrow> fault + (doitResult \<times> ShardKV)"
where
  "applyClient pl result kv =
     (if cType pl = ''Get'' then
        (case at (Shards kv) (cShard pl) of
           Inl e \<Rightarrow> Inl e
         | Inr sh \<Rightarrow>
             (case Data sh (cKey pl) of
                Some v \<Rightarrow> Inr (result\<lparr>rValue := v\<rparr>, kv)
              | None \<Rightarrow> Inr (result\<lparr>rErr := ErrNoKey\<rparr>, kv)))
      else if cType pl = ''Put'' then
        (case setAt (Shards kv) (cShard pl)
                (\<lambda>sh. sh\<lparr>Data := (Data sh)(cKey pl \<mapsto> cValue pl)\<rparr>) of
           Inl e \<Rightarrow> Inl e
         | Inr shards \<Rightarrow> Inr (result, kv\<lparr>Shards := shards\<rparr>))
      else if cType pl = ''Append'' then
        (case setAt (Shards kv) (cShard pl)
                (\<lambda>sh. sh\<lparr>Data := (Data sh)(cKey pl \<mapsto>
                     (case Data sh (cKey pl) of None \<Rightarrow> [] | Some v \<Rightarrow> v) @ cValue pl)\<rparr>) of
           Inl e \<Rightarrow> Inl e
         | Inr shards \<Rightarrow> Inr (result, kv\<lparr>Shards := shards\<rparr>))
      else Inl UnknownOp)"

text \<open>The loop of the case \<open>"MigrationIn"\<close> over \<open>pl.Sids\<close>.\<close>

fun installShards ::
  "(string \<rightharpoonup> string) list \<Rightarrow> int list \<Rightarrow> Shard list \<Rightarrow> fault + Shard list"
where
  "installShards data [] shards = Inr shards"
| "installShards data (sid # sids) shards =
     (case at shards sid of
        Inl e \<Rightarrow> Inl e
      | Inr sh \<Rightarrow>
          if Status sh = ShardMigrationIn then
            (case at data sid of
               Inl e \<Rightarrow> Inl e
             | Inr m \<Rightarrow>
                 installShards data sids
                   (shards[nat sid := sh\<lparr>Data := copyOfData m, Status := ShardOK\<rparr>]))
          else installShards data sids shards)"

text \<open>
  The end of \<open>ingestCommand\<close>: the write to the duplicate table, the send on the reply
  channel of this index when there is one, and the removal of the registration.
\<close>

definition recordResult :: "int \<Rightarrow> doitResult \<Rightarrow> ShardKV \<Rightarrow> ShardKV" where
  "recordResult index result kv =
     (let kv1 = kv\<lparr>DupTable := (DupTable kv)(rClientId result \<mapsto>
                    \<lparr>dSN = rSN result, dValue = rValue result, dErr = rErr result\<rparr>)\<rparr>;
          kv2 = (if index \<in> resultCh kv1
                 then kv1\<lparr>trace := trace kv1 @ [Send index result]\<rparr> else kv1)
      in kv2\<lparr>resultCh := resultCh kv2 - {index}\<rparr>)"

text \<open>
  \<open>ingestCommand\<close> returns nothing in Go; the model returns the new state and, beside
  it, the value of the local \<open>result\<close> that was written to the duplicate table
  (\<open>None\<close> on the two early returns, which record nothing).
\<close>

definition ingestCommand ::
  "nat \<Rightarrow> int \<Rightarrow> Op \<Rightarrow> ShardKV \<Rightarrow> fault + (doitResult option \<times> ShardKV)"
where
  "ingestCommand NShards index op kv0 =
     (let kv = kv0\<lparr>lastApplied := index\<rparr>;
          result = dupResult kv op in
      case Playload op of
        Client pl \<Rightarrow>
          (case applyClient pl result kv of
             Inl e \<Rightarrow> Inl e
           | Inr (result', kv') \<Rightarrow> Inr (Some result', recordResult index result' kv'))
      | Server pl \<Rightarrow>
          if sType pl = ''Config'' then
            (case prepareMigration NShards (sConfig pl) kv of
               Inl e \<Rightarrow> Inl e
             | Inr (needMigration, kv') \<Rightarrow>
                 if needMigration
                 then Inr (None, kv'\<lparr>trace := trace kv' @ [Start (migrationOutOp NShards)]\<rparr>)
                 else Inr (None, kv'))
          else if sType pl = ''MigrationOut'' then
            Inr (None, kv\<lparr>trace := trace kv @ [Signal migrationTrigger]\<rparr>)
          else if sType pl = ''MigrationIn'' then
            (case installShards (sData pl) (sSids pl) (Shards kv) of
               Inl e \<Rightarrow> Inl e
             | Inr shards \<Rightarrow>
                 Inr (Some result, recordResult index result (kv\<lparr>Shards := shards\<rparr>)))
          else Inl UnknownOp
      | Other \<Rightarrow> Inl UnknownOp)"

subsection \<open>Snapshots\<close>

text \<open>
  The three \<open>Encode\<close> calls of the snapshot emission in \<open>applier\<close>, in their order.
\<close>

definition encodeState :: "ShardKV \<Rightarrow> blob" where
  "encodeState kv = [GobShards (Shards kv), GobDupTable (DupTable kv), GobConfig (Config kv)]"

text \<open>\<open>Decode\<close> into a variable of each of the three types.\<close>

fun decodeShards :: "blob \<Rightarrow> (Shard list \<times> blob) option" where
  "decodeShards (GobShards v # rest) = Some (v, rest)"
| "decodeShards _ = None"

fun decodeDupTable :: "blob \<Rightarrow> ((int \<rightharpoonup> DupEntry) \<times> blob) option" where
  "decodeDupTable (GobDupTable v # rest) = Some (v, rest)"
| "decodeDupTable _ = None"

fun decodeConfig :: "blob \<Rightarrow> (Config \<times> blob) option" where
  "decodeConfig (GobConfig v # rest) = Some (v, rest)"
| "decodeConfig _ = None"

definition ingestSnap :: "blob \<Rightarrow> ShardKV \<Rightarrow> fault + ShardKV" where
  "ingestSnap snapshot kv =
     (if length snapshot = 0 then Inr kv
      else
        (case decodeShards snapshot of
           None \<Rightarrow> Inl DecodeError
         | Some (shards, rest1) \<Rightarrow>
             (case decodeDupTable rest1 of
                None \<Rightarrow> Inl DecodeError
              | Some (dupTable, rest2) \<Rightarrow>
                  (case decodeConfig rest2 of
                     None \<Rightarrow> Inl DecodeError
                   | Some (config, rest3) \<Rightarrow>
                       Inr (kv\<lparr>Shards := shards, DupTable := dupTable, Config := config\<rparr>)))))"

text \<open>
  \<open>StartServer\<close>: the fields it initialises, the snapshot read from the persister, and
  the first signal to the poller. The goroutines it starts are not part of the model.
\<close>

definition StartServer :: "nat \<Rightarrow> int \<Rightarrow> blob \<Rightarrow> fault + ShardKV" where
  "StartServer NShards g snapshot =
     (case ingestSnap snapshot
             \<lparr>gid = g,
              Shards = replicate NShards \<lparr>Status = ShardOK, Data = Map.empty\<rparr>,
              DupTable = Map.empty,
              Config = zeroConfig NShards,
              resultCh = {},
              lastApplied = 0,
              trace = []\<rparr> of
        Inl e \<Rightarrow> Inl e
      | Inr kv \<Rightarrow> Inr (kv\<lparr>trace := trace kv @ [Signal pollTrigger]\<rparr>))"

subsection \<open>applier\<close>

text \<open>
  One iteration of the loop of \<open>applier\<close> on a message of the apply channel. The
  message type belongs to the consensus engine; these are the fields the loop reads.
  \<open>SnapCheckpoint\<close> is a non-zero constant declared beside the server code and, like
  the size that \<open>persister.RaftStateSize()\<close> reports, an argument of the model. Go's
  \<open>%\<close> truncates where \<open>mod\<close> floors; the two agree on whether the remainder is 0.
\<close>

record ApplyMsg =
  mCommandValid :: bool
  mCommand :: Op
  mCommandIndex :: int
  mSnapshotValid :: bool
  mSnapshot :: blob
  mSnapshotIndex :: int

definition applier ::
  "nat \<Rightarrow> int \<Rightarrow> int \<Rightarrow> int \<Rightarrow> ApplyMsg \<Rightarrow> ShardKV \<Rightarrow> fault + ShardKV"
where
  "applier NShards SnapCheckpoint maxraftstate raftStateSize m kv =
     (if mCommandValid m then
        (case ingestCommand NShards (mCommandIndex m) (mCommand m) kv of
           Inl e \<Rightarrow> Inl e
         | Inr (result, kv') \<Rightarrow>
             if maxraftstate \<noteq> - 1 \<and> mCommandIndex m mod SnapCheckpoint = 0
             then (if raftStateSize > maxraftstate
                   then Inr (kv'\<lparr>trace := trace kv' @
                               [Snapshot (mCommandIndex m) (encodeState kv')]\<rparr>)
                   else Inr kv')
             else Inr kv')
      else if mSnapshotValid m \<and> lastApplied kv < mSnapshotIndex m then
        ingestSnap (mSnapshot m) kv
      else Inr kv)"

section \<open>The request path\<close>

text \<open>
  \<open>doit\<close> up to the point where it releases the lock: it either has a result to
  return at once (\<open>Reply\<close>), or it has registered a reply channel at the index that
  \<open>kv.rf.Start\<close> gave it and goes on to wait for the applier (\<open>Wait\<close>). The consensus
  engine is outside the sources: what \<open>Start\<close> returns, the index and the leader flag,
  are arguments of the model, and the call itself is an event of the trace.
\<close>

datatype outcome = Reply doitResult | Wait int

text \<open>
  The check that this group is responsible and ready for a client payload. The right
  operand of Go's \<open>||\<close> is only evaluated when the left one is false.
\<close>

definition responsible :: "ShardKV \<Rightarrow> Op \<Rightarrow> fault + bool" where
  "responsible kv op =
     (case Playload op of
        Client pl \<Rightarrow>
          (case at (cfShards (Config kv)) (cShard pl) of
             Inl e \<Rightarrow> Inl e
           | Inr g \<Rightarrow>
               if g \<noteq> gid kv then Inr False
               else
                 (case at (Shards kv) (cShard pl) of
                    Inl e \<Rightarrow> Inl e
                  | Inr sh \<Rightarrow> Inr (Status sh = ShardOK)))
      | Server pl \<Rightarrow> Inr True
      | Other \<Rightarrow> Inr True)"

text \<open>The part of \<open>doit\<close> after the look-up in the duplicate table.\<close>

definition doitSubmit ::
  "int \<Rightarrow> bool \<Rightarrow> Op \<Rightarrow> doitResult \<Rightarrow> ShardKV \<Rightarrow> fault + (outcome \<times> ShardKV)"
where
  "doitSubmit index isLeader op result kv =
     (case responsible kv op of
        Inl e \<Rightarrow> Inl e
      | Inr ready \<Rightarrow>
          if \<not> ready then Inr (Reply (result\<lparr>rErr := ErrWrongGroup\<rparr>), kv)
          else
            (let kv1 = kv\<lparr>trace := trace kv @ [Start op]\<rparr> in
             if \<not> isLeader then Inr (Reply (result\<lparr>rErr := ErrWrongLeader\<rparr>), kv1)
             else Inr (Wait index, kv1\<lparr>resultCh := insert index (resultCh kv1)\<rparr>)))"

definition doit :: "int \<Rightarrow> bool \<Rightarrow> Op \<Rightarrow> ShardKV \<Rightarrow> fault + (outcome \<times> ShardKV)" where
  "doit index isLeader op kv =
     (let result = \<lparr>rClientId = ClientId op, rSN = SN op, rValue = [], rErr = Unset\<rparr> in
      case DupTable kv (ClientId op) of
        None \<Rightarrow> doitSubmit index isLeader op result kv
      | Some dEntry \<Rightarrow>
          if dSN dEntry = SN op
          then Inr (Reply (result\<lparr>rValue := dValue dEntry, rErr := OK\<rparr>), kv)
          else doitSubmit index isLeader op result kv)"

text \<open>
  The handler of the migration RPC. The argument struct is declared beside the server
  code; these are the fields the handler reads. The handler answers with an error code
  (\<open>Replied\<close>) or is left waiting in \<open>doit\<close> (\<open>Waiting\<close>).
\<close>

record ShardMigrationArgs =
  aNum :: int
  aSids :: "int list"
  aData :: "(string \<rightharpoonup> string) list"
  aClientId :: int
  aSN :: int

datatype rpcOutcome = Replied Err | Waiting int

definition migrationInOp :: "nat \<Rightarrow> ShardMigrationArgs \<Rightarrow> Op" where
  "migrationInOp NShards args =
     \<lparr>ClientId = aClientId args, SN = aSN args,
      Playload = Server \<lparr>sType = ''MigrationIn'', sSids = aSids args, sData = aData args,
                         sConfig = zeroConfig NShards\<rparr>\<rparr>"

definition ShardMigration ::
  "nat \<Rightarrow> int \<Rightarrow> bool \<Rightarrow> ShardMigrationArgs \<Rightarrow> ShardKV \<Rightarrow> fault + (rpcOutcome \<times> ShardKV)"
where
  "ShardMigration NShards index isLeader args kv =
     (if aNum args < Num (Config kv) then Inr (Replied ErrOutdatedConfig, kv)
      else if aNum args > Num (Config kv) then
        Inr (Replied ErrUpdatingConfig, kv\<lparr>trace := trace kv @ [Signal pollTrigger]\<rparr>)
      else
        (case doit index isLeader (migrationInOp NShards args) kv of
           Inl e \<Rightarrow> Inl e
         | Inr (Reply result, kv') \<Rightarrow>
             Inr (Replied (if rClientId result = aClientId args \<and> rSN result = aSN args
                           then rErr result else Unset), kv')
         | Inr (Wait i, kv') \<Rightarrow> Inr (Waiting i, kv')))"

section \<open>Runs of the applier\<close>

text \<open>
  The configuration numbers a server takes on while \<open>prepareMigration\<close> is given a
  sequence of configurations: one entry for every call that left another configuration
  in \<open>kv.Config\<close> than it found. A panic ends the run.
\<close>

fun appliedNums :: "nat \<Rightarrow> Config list \<Rightarrow> ShardKV \<Rightarrow> int list" where
  "appliedNums NShards [] kv = []"
| "appliedNums NShards (c # cs) kv =
     (case prepareMigration NShards c kv of
        Inl e \<Rightarrow> []
      | Inr (needMigration, kv') \<Rightarrow>
          (if Config kv' = Config kv then [] else [Num (Config kv')])
          @ appliedNums NShards cs kv')"

section \<open>Example servers and log entries\<close>

text \<open>The log entries of client 7 used in the examples below.\<close>

definition appendA :: Op where
  "appendA = \<lparr>ClientId = 7, SN = 1,
     Playload = Client \<lparr>cType = ''Append'', cKey = ''x'', cValue = ''A'', cShard = 3\<rparr>\<rparr>"

definition putSN :: "int \<Rightarrow> Op" where
  "putSN sn = \<lparr>ClientId = 7, SN = sn,
     Playload = Client \<lparr>cType = ''Put'', cKey = ''x'', cValue = ''A'', cShard = 3\<rparr>\<rparr>"

text \<open>
  Configuration 1 gives shards 0 to 4 to group 100 and shards 5 to 9 to group 200.
  \<open>server1\<close> is a server of group 100 under that configuration, with one key in shard
  3 and the record of client 7's request of serial 1.
\<close>

definition config1 :: Config where
  "config1 = \<lparr>Num = 1, cfShards = [100, 100, 100, 100, 100, 200, 200, 200, 200, 200],
     Groups = Map.empty\<rparr>"

definition server1 :: ShardKV where
  "server1 =
     \<lparr>gid = 100,
      Shards = (replicate 10 \<lparr>Status = ShardOK, Data = Map.empty\<rparr>)
                 [3 := \<lparr>Status = ShardOK, Data = [''x'' \<mapsto> ''A'']\<rparr>],
      DupTable = [7 \<mapsto> \<lparr>dSN = 1, dValue = [], dErr = OK\<rparr>],
      Config = config1,
      resultCh = {},
      lastApplied = 1,
      trace = []\<rparr>"

definition getOp :: "int \<Rightarrow> string \<Rightarrow> int \<Rightarrow> Op" where
  "getOp sn k sid = \<lparr>ClientId = 7, SN = sn,
     Playload = Client \<lparr>cType = ''Get'', cKey = k, cValue = [], cShard = sid\<rparr>\<rparr>"

text \<open>
  The migration RPC of group 200 for configuration \<open>n\<close>: it lists shard 7, with
  one key, and shard 3, with none.
\<close>

definition migArgs :: "int \<Rightarrow> ShardMigrationArgs" where
  "migArgs n = \<lparr>aNum = n, aSids = [7, 3],
     aData = (replicate 10 Map.empty)[7 := [''y'' \<mapsto> ''B'']],
     aClientId = 200, aSN = n\<rparr>"

text \<open>A Put or Append of client 7.\<close>

definition writeOp :: "string \<Rightarrow> int \<Rightarrow> string \<Rightarrow> string \<Rightarrow> int \<Rightarrow> Op" where
  "writeOp ty sn k v sid = \<lparr>ClientId = 7, SN = sn,
     Playload = Client \<lparr>cType = ty, cKey = k, cValue = v, cShard = sid\<rparr>\<rparr>"

text \<open>
  The status the spec gives a shard when a configuration is accepted, from the group
  id, the old and the new owner of the shard and its status so far: \<open>MigratingOut\<close>
  when the group loses the shard, \<open>MigratingIn\<close> when it gains it from another group
  than the sentinel 0, and the old status otherwise.
\<close>

definition statusAfter :: "int \<Rightarrow> int \<Rightarrow> int \<Rightarrow> ShardStatus \<Rightarrow> ShardStatus" where
  "statusAfter g oldg newg st =
     (if oldg = g \<and> newg \<noteq> g then ShardMigrationOut
      else if newg = g \<and> oldg \<noteq> g \<and> oldg \<noteq> 0 then ShardMigrationIn
      else st)"

text \<open>
  Configuration 2 moves shard 3 from group 100 to group 200 and shard 7 from group 200
  to group 100.
\<close>

definition config2 :: Config where
  "config2 = \<lparr>Num = 2, cfShards = [100, 100, 100, 200, 100, 200, 200, 100, 200, 200],
     Groups = Map.empty\<rparr>"

text \<open>
  \<open>server2\<close> is \<open>server1\<close> after it accepted configuration 2: shard 3 is on its way
  out and shard 7 is awaited.
\<close>

definition server2 :: ShardKV where
  "server2 = server1
     \<lparr>Shards := (Shards server1)
        [3 := \<lparr>Status = ShardMigrationOut, Data = [''x'' \<mapsto> ''A'']\<rparr>,
         7 := \<lparr>Status = ShardMigrationIn, Data = Map.empty\<rparr>],
      Config := config2\<rparr>"

text \<open>
  The log entry by which the poller proposes a configuration, and the first entries of
  a run: a server of group 100 starts without a snapshot and applies configuration 1
  at index 1, which gives it shards 0 to 4, ready to serve since nobody held them
  before.
\<close>

definition configOp :: "Config \<Rightarrow> Op" where
  "configOp c = \<lparr>ClientId = 0, SN = 0,
     Playload = Server \<lparr>sType = ''Config'', sSids = [], sData = [], sConfig = c\<rparr>\<rparr>"

definition started :: "fault + (doitResult option \<times> ShardKV)" where
  "started =
     (case StartServer 10 100 [] of
        Inl e \<Rightarrow> Inl e
      | Inr kv \<Rightarrow> ingestCommand 10 1 (configOp config1) kv)"

section \<open>The examples evaluated\<close>

text \<open>The index list of the loop of \<open>prepareMigration\<close> for ten shards.\<close>

lemma upt_ten: "[0..<10] = [0, 1, 2, 3, 4, 5, 6, 7, 8, 9]"
  by (simp add: upt_rec)

text \<open>
  The run \<open>started\<close> ends in the state of \<open>server1\<close> without its key and its table
  entry: all shards \<open>ShardOK\<close> and empty, configuration 1 stored, nothing proposed.
\<close>

lemma started_eq:
  "started = Inr (None, server1\<lparr>Shards := replicate 10 \<lparr>Status = ShardOK, Data = Map.empty\<rparr>,
                               DupTable := Map.empty, trace := [Signal pollTrigger]\<rparr>)"
  by (simp add: started_def StartServer_def ingestSnap_def ingestCommand_def configOp_def
      config1_def server1_def zeroConfig_def prepareMigration_def migrateShard_def at_def
      setAt_def upt_ten)

section \<open>Properties of the snapshot codec\<close>

text \<open>
  C10. Installing a snapshot of zero length changes nothing and is not an error: the
  shard array, the duplicate table, the configuration and every other field stay as
  they were. A server started without a snapshot therefore keeps the state
  \<open>StartServer\<close> has just built: \<open>NShards\<close> shards, all \<open>ShardOK\<close> with empty data, an
  empty duplicate table and the zero configuration.
\<close>

theorem ingestSnap_empty:
  "ingestSnap [] kv = Inr kv \<and>
   StartServer NShards g [] =
     Inr \<lparr>gid = g,
          Shards = replicate NShards \<lparr>Status = ShardOK, Data = Map.empty\<rparr>,
          DupTable = Map.empty,
          Config = zeroConfig NShards,
          resultCh = {},
          lastApplied = 0,
          trace = [Signal pollTrigger]\<rparr>"
  by (simp add: ingestSnap_def StartServer_def)

text \<open>
  The blob that the applier hands to the consensus engine, when it takes a snapshot
  after a command, is the encoding of the state the command left; a snapshot message
  beyond \<open>lastApplied\<close> is installed by \<open>ingestSnap\<close>.
\<close>

lemma applier_emits_encodeState:
  "mCommandValid m \<Longrightarrow>
   ingestCommand NShards (mCommandIndex m) (mCommand m) kv = Inr (result, kv') \<Longrightarrow>
   maxraftstate \<noteq> - 1 \<Longrightarrow> mCommandIndex m mod SnapCheckpoint = 0 \<Longrightarrow>
   raftStateSize > maxraftstate \<Longrightarrow>
   applier NShards SnapCheckpoint maxraftstate raftStateSize m kv =
     Inr (kv'\<lparr>trace := trace kv' @ [Snapshot (mCommandIndex m) (encodeState kv')]\<rparr>)"
  by (simp add: applier_def)

lemma applier_installs_snapshot:
  "\<not> mCommandValid m \<Longrightarrow> mSnapshotValid m \<Longrightarrow> lastApplied kv < mSnapshotIndex m \<Longrightarrow>
   applier NShards SnapCheckpoint maxraftstate raftStateSize m kv = ingestSnap (mSnapshot m) kv"
  by (simp add: applier_def)

text \<open>
  C9. Snapshot round trip. Decoding, as \<open>ingestSnap\<close> does, the blob that the snapshot
  emission of the applier encodes from a state \<open>kv\<close> succeeds on every server \<open>kv'\<close> and
  leaves it with the shard array (maps and statuses), the duplicate table and the
  configuration of \<open>kv\<close>; on \<open>kv\<close> itself it is the identity.
\<close>

theorem snapshot_roundtrip:
  "ingestSnap (encodeState kv) kv' =
     Inr (kv'\<lparr>Shards := Shards kv, DupTable := DupTable kv, Config := Config kv\<rparr>) \<and>
   ingestSnap (encodeState kv) kv = Inr kv"
  by (simp add: ingestSnap_def encodeState_def)

section \<open>Duplicate suppression in the applier\<close>

text \<open>
  C1. The specification says that an entry whose serial the duplicate table already
  covers changes no shard data, so that a retried Append does not concatenate twice,
  and the comments of \<open>ingestCommand\<close> say the same. The code looks the entry up but
  then runs the switch all the same. On the server \<open>started\<close>, which owns shard 3,
  the entry \<open>Append("x", "A")\<close> of client 7 with serial 1 is applied at index 2: the
  key holds \<open>"A"\<close> and the table records serial 1. The same entry applied again at
  index 3 leaves \<open>"AA"\<close>.
\<close>

theorem ingestCommand_retried_Append:
  "\<exists>kv0 r1 kv1 r2 kv2.
     started = Inr (None, kv0) \<and>
     ingestCommand 10 2 appendA kv0 = Inr (r1, kv1) \<and>
     Data (Shards kv1 ! 3) ''x'' = Some ''A'' \<and>
     DupTable kv1 7 = Some \<lparr>dSN = 1, dValue = [], dErr = OK\<rparr> \<and>
     ingestCommand 10 3 appendA kv1 = Inr (r2, kv2) \<and>
     Data (Shards kv2 ! 3) ''x'' = Some ''AA''"
  by (simp add: started_eq server1_def ingestCommand_def appendA_def dupResult_def
      applyClient_def setAt_def recordResult_def)

text \<open>
  C2. The specification says that the serial stored for a client never decreases.
  The code writes the serial of the entry into the table after the switch, whatever
  the table held. On the server \<open>started\<close>, client 7's Put with serial 2 is applied at
  index 2 and the table records serial 2; a late copy of its Put with serial 1,
  applied at index 3, leaves serial 1 in the table.
\<close>

theorem ingestCommand_stale_serial:
  "\<exists>kv0 r1 kv1 r2 kv2.
     started = Inr (None, kv0) \<and>
     ingestCommand 10 2 (putSN 2) kv0 = Inr (r1, kv1) \<and>
     map_option dSN (DupTable kv1 7) = Some 2 \<and>
     ingestCommand 10 3 (putSN 1) kv1 = Inr (r2, kv2) \<and>
     map_option dSN (DupTable kv2 7) = Some 1"
  by (simp add: started_eq server1_def ingestCommand_def putSN_def dupResult_def
      applyClient_def setAt_def recordResult_def)

section \<open>The request path: admission checks\<close>

text \<open>
  C3. The three early answers of \<open>doit\<close>, in the order the code takes them.
  First: when the duplicate table holds an entry for the client with the serial of the
  request, \<open>doit\<close> returns the cached value with \<open>OK\<close> and leaves the server as it
  was: nothing is submitted, and the answer does not depend on the shard, its owner or
  its status. Second: otherwise, for a client payload whose shard (a valid shard id) is
  not assigned to this group in the current configuration or is not \<open>ShardOK\<close>,
  \<open>doit\<close> returns \<open>ErrWrongGroup\<close>, again without submitting. Third: otherwise
  the operation is handed to \<open>Start\<close>, and when the server is not the leader \<open>doit\<close>
  returns \<open>ErrWrongLeader\<close>.
\<close>

theorem doit_checks:
  "(DupTable kv (ClientId op) = Some d \<and> dSN d = SN op \<longrightarrow>
      doit index isLeader op kv =
        Inr (Reply \<lparr>rClientId = ClientId op, rSN = SN op, rValue = dValue d, rErr = OK\<rparr>, kv)) \<and>
   ((\<forall>e. DupTable kv (ClientId op) = Some e \<longrightarrow> dSN e \<noteq> SN op) \<and>
    Playload op = Client pl \<and>
    0 \<le> cShard pl \<and> cShard pl < int (length (cfShards (Config kv))) \<and>
    cShard pl < int (length (Shards kv)) \<and>
    (cfShards (Config kv) ! nat (cShard pl) \<noteq> gid kv \<or>
     Status (Shards kv ! nat (cShard pl)) \<noteq> ShardOK) \<longrightarrow>
      doit index isLeader op kv =
        Inr (Reply \<lparr>rClientId = ClientId op, rSN = SN op, rValue = [], rErr = ErrWrongGroup\<rparr>, kv)) \<and>
   ((\<forall>e. DupTable kv (ClientId op) = Some e \<longrightarrow> dSN e \<noteq> SN op) \<and>
    (\<forall>p. Playload op = Client p \<longrightarrow>
       0 \<le> cShard p \<and> cShard p < int (length (cfShards (Config kv))) \<and>
       cShard p < int (length (Shards kv)) \<and>
       cfShards (Config kv) ! nat (cShard p) = gid kv \<and>
       Status (Shards kv ! nat (cShard p)) = ShardOK) \<and>
    \<not> isLeader \<longrightarrow>
      doit index isLeader op kv =
        Inr (Reply \<lparr>rClientId = ClientId op, rSN = SN op, rValue = [], rErr = ErrWrongLeader\<rparr>,
             kv\<lparr>trace := trace kv @ [Start op]\<rparr>))"
proof (intro conjI impI)
  assume "DupTable kv (ClientId op) = Some d \<and> dSN d = SN op"
  then show "doit index isLeader op kv =
        Inr (Reply \<lparr>rClientId = ClientId op, rSN = SN op, rValue = dValue d, rErr = OK\<rparr>, kv)"
    by (simp add: doit_def Let_def)
next
  assume h: "(\<forall>e. DupTable kv (ClientId op) = Some e \<longrightarrow> dSN e \<noteq> SN op) \<and>
    Playload op = Client pl \<and>
    0 \<le> cShard pl \<and> cShard pl < int (length (cfShards (Config kv))) \<and>
    cShard pl < int (length (Shards kv)) \<and>
    (cfShards (Config kv) ! nat (cShard pl) \<noteq> gid kv \<or>
     Status (Shards kv ! nat (cShard pl)) \<noteq> ShardOK)"
  then have "responsible kv op = Inr False"
    by (auto simp: responsible_def at_def)
  with h show "doit index isLeader op kv =
        Inr (Reply \<lparr>rClientId = ClientId op, rSN = SN op, rValue = [], rErr = ErrWrongGroup\<rparr>, kv)"
    by (auto simp: doit_def doitSubmit_def Let_def split: option.splits)
next
  assume h: "(\<forall>e. DupTable kv (ClientId op) = Some e \<longrightarrow> dSN e \<noteq> SN op) \<and>
    (\<forall>p. Playload op = Client p \<longrightarrow>
       0 \<le> cShard p \<and> cShard p < int (length (cfShards (Config kv))) \<and>
       cShard p < int (length (Shards kv)) \<and>
       cfShards (Config kv) ! nat (cShard p) = gid kv \<and>
       Status (Shards kv ! nat (cShard p)) = ShardOK) \<and>
    \<not> isLeader"
  then have "responsible kv op = Inr True"
    by (cases "Playload op") (auto simp: responsible_def at_def)
  with h show "doit index isLeader op kv =
        Inr (Reply \<lparr>rClientId = ClientId op, rSN = SN op, rValue = [], rErr = ErrWrongLeader\<rparr>,
             kv\<lparr>trace := trace kv @ [Start op]\<rparr>)"
    by (auto simp: doit_def doitSubmit_def Let_def split: option.splits)
qed

theorem doit_checks_witness:
  "doit 5 True (getOp 1 ''x'' 7) server1 =
     Inr (Reply \<lparr>rClientId = 7, rSN = 1, rValue = [], rErr = OK\<rparr>, server1) \<and>
   doit 5 True (getOp 2 ''x'' 7) server1 =
     Inr (Reply \<lparr>rClientId = 7, rSN = 2, rValue = [], rErr = ErrWrongGroup\<rparr>, server1) \<and>
   doit 5 False (getOp 2 ''x'' 3) server1 =
     Inr (Reply \<lparr>rClientId = 7, rSN = 2, rValue = [], rErr = ErrWrongLeader\<rparr>,
          server1\<lparr>trace := [Start (getOp 2 ''x'' 3)]\<rparr>)"
  using doit_checks [where kv = server1 and op = "getOp 1 ''x'' 7" and index = 5
      and isLeader = True and d = "\<lparr>dSN = 1, dValue = [], dErr = OK\<rparr>"]
    doit_checks [where kv = server1 and op = "getOp 2 ''x'' 7" and index = 5
      and isLeader = True and pl = "\<lparr>cType = ''Get'', cKey = ''x'', cValue = [], cShard = 7\<rparr>"]
    doit_checks [where kv = server1 and op = "getOp 2 ''x'' 3" and index = 5
      and isLeader = False]
  by (simp add: server1_def getOp_def config1_def)

section \<open>The migration RPC\<close>

text \<open>A result that \<open>doit\<close> returns at once carries the ids of the operation.\<close>

lemma doit_Reply_ids:
  "doit index isLeader op kv = Inr (Reply r, kv') \<Longrightarrow> rClientId r = ClientId op \<and> rSN r = SN op"
  by (auto simp: doit_def doitSubmit_def Let_def split: option.splits if_splits sum.splits)

text \<open>
  C8. The handler of the migration RPC compares the configuration number of the
  request with the server's. A smaller number is answered \<open>ErrOutdatedConfig\<close> and
  the server is left exactly as it was. A greater number is answered
  \<open>ErrUpdatingConfig\<close>; the server's fields are as they were, the only effect being the
  wake-up signal to the poller, and nothing is submitted. Only with equal numbers does
  the handler go on to \<open>doit\<close> with the MigrationIn operation, whose answer it passes
  on; unless the duplicate table already holds that serial for the sender, \<open>doit\<close>
  submits the operation to the log.
\<close>

theorem ShardMigration_config_num:
  "(aNum args < Num (Config kv) \<longrightarrow>
      ShardMigration NShards index isLeader args kv = Inr (Replied ErrOutdatedConfig, kv)) \<and>
   (aNum args > Num (Config kv) \<longrightarrow>
      ShardMigration NShards index isLeader args kv =
        Inr (Replied ErrUpdatingConfig, kv\<lparr>trace := trace kv @ [Signal pollTrigger]\<rparr>)) \<and>
   (aNum args = Num (Config kv) \<longrightarrow>
      ShardMigration NShards index isLeader args kv =
        (case doit index isLeader (migrationInOp NShards args) kv of
           Inl e \<Rightarrow> Inl e
         | Inr (Reply result, kv') \<Rightarrow> Inr (Replied (rErr result), kv')
         | Inr (Wait i, kv') \<Rightarrow> Inr (Waiting i, kv'))) \<and>
   (aNum args = Num (Config kv) \<and>
    (\<forall>e. DupTable kv (aClientId args) = Some e \<longrightarrow> dSN e \<noteq> aSN args) \<longrightarrow>
      (\<exists>out kv'. ShardMigration NShards index isLeader args kv = Inr (out, kv') \<and>
         trace kv' = trace kv @ [Start (migrationInOp NShards args)]))"
proof (intro conjI impI)
  assume "aNum args < Num (Config kv)"
  then show "ShardMigration NShards index isLeader args kv = Inr (Replied ErrOutdatedConfig, kv)"
    by (simp add: ShardMigration_def)
next
  assume "aNum args > Num (Config kv)"
  then show "ShardMigration NShards index isLeader args kv =
        Inr (Replied ErrUpdatingConfig, kv\<lparr>trace := trace kv @ [Signal pollTrigger]\<rparr>)"
    by (simp add: ShardMigration_def)
next
  assume eq: "aNum args = Num (Config kv)"
  have ids: "ClientId (migrationInOp NShards args) = aClientId args"
    "SN (migrationInOp NShards args) = aSN args"
    by (simp_all add: migrationInOp_def)
  show "ShardMigration NShards index isLeader args kv =
        (case doit index isLeader (migrationInOp NShards args) kv of
           Inl e \<Rightarrow> Inl e
         | Inr (Reply result, kv') \<Rightarrow> Inr (Replied (rErr result), kv')
         | Inr (Wait i, kv') \<Rightarrow> Inr (Waiting i, kv'))"
    using eq doit_Reply_ids [of index isLeader "migrationInOp NShards args" kv]
    by (auto simp: ShardMigration_def ids split: sum.splits outcome.splits)
next
  assume h: "aNum args = Num (Config kv) \<and>
    (\<forall>e. DupTable kv (aClientId args) = Some e \<longrightarrow> dSN e \<noteq> aSN args)"
  have "responsible kv (migrationInOp NShards args) = Inr True"
    by (simp add: responsible_def migrationInOp_def)
  with h show "\<exists>out kv'. ShardMigration NShards index isLeader args kv = Inr (out, kv') \<and>
         trace kv' = trace kv @ [Start (migrationInOp NShards args)]"
    by (auto simp: ShardMigration_def doit_def doitSubmit_def Let_def migrationInOp_def
        split: option.splits)
qed

theorem ShardMigration_config_num_witness:
  "ShardMigration 10 5 True (migArgs 0) server1 = Inr (Replied ErrOutdatedConfig, server1) \<and>
   ShardMigration 10 5 True (migArgs 2) server1 =
     Inr (Replied ErrUpdatingConfig, server1\<lparr>trace := [Signal pollTrigger]\<rparr>) \<and>
   ShardMigration 10 5 True (migArgs 1) server1 =
     Inr (Waiting 5, server1\<lparr>trace := [Start (migrationInOp 10 (migArgs 1))], resultCh := {5}\<rparr>)"
  using ShardMigration_config_num [of "migArgs 0" server1 10 5 True]
    ShardMigration_config_num [of "migArgs 2" server1 10 5 True]
    ShardMigration_config_num [of "migArgs 1" server1 10 5 True]
  by (simp add: server1_def migArgs_def config1_def doit_def doitSubmit_def responsible_def
      migrationInOp_def)

section \<open>Client operations in the applier\<close>

text \<open>
  C7. What the applier does for a client operation on the map of its shard (a valid
  shard id). A Get of a key that the shard does not hold yields \<open>ErrNoKey\<close>; a Get of
  a key it holds yields the stored value, with \<open>OK\<close> for every entry that is not the
  replay of the serial recorded for the client; neither changes the shards. A Put
  stores the given value under the key, whatever was there. An Append stores the old
  value followed by the given one, the old value of a missing key being the empty
  string, so that an Append to a missing key stores exactly the given value.
\<close>

theorem ingestCommand_client_ops:
  "Playload op = Client pl \<Longrightarrow> 0 \<le> cShard pl \<Longrightarrow> cShard pl < int (length (Shards kv)) \<Longrightarrow>
   (let s = nat (cShard pl); sh = Shards kv ! s; k = cKey pl;
        res = ingestCommand NShards index op kv in
    (cType pl = ''Get'' \<and> Data sh k = None \<longrightarrow>
       (\<exists>r kv'. res = Inr (Some r, kv') \<and> rErr r = ErrNoKey \<and> Shards kv' = Shards kv)) \<and>
    (\<forall>v. cType pl = ''Get'' \<and> Data sh k = Some v \<longrightarrow>
       (\<exists>r kv'. res = Inr (Some r, kv') \<and> rValue r = v \<and> Shards kv' = Shards kv \<and>
          ((\<forall>e. DupTable kv (ClientId op) = Some e \<longrightarrow> dSN e \<noteq> SN op) \<longrightarrow> rErr r = OK))) \<and>
    (cType pl = ''Put'' \<longrightarrow>
       (\<exists>r kv'. res = Inr (Some r, kv') \<and>
          Shards kv' = (Shards kv)[s := sh\<lparr>Data := (Data sh)(k \<mapsto> cValue pl)\<rparr>])) \<and>
    (cType pl = ''Append'' \<longrightarrow>
       (\<exists>r kv'. res = Inr (Some r, kv') \<and>
          Shards kv' = (Shards kv)[s := sh\<lparr>Data := (Data sh)(k \<mapsto>
             (case Data sh k of None \<Rightarrow> [] | Some v \<Rightarrow> v) @ cValue pl)\<rparr>] \<and>
          (Data sh k = None \<longrightarrow> Data (Shards kv' ! s) k = Some (cValue pl)))))"
  by (auto simp: ingestCommand_def applyClient_def at_def setAt_def recordResult_def
      dupResult_def Let_def split: option.splits)

theorem ingestCommand_client_ops_witness:
  "(\<exists>r kv'. ingestCommand 10 2 (getOp 2 ''z'' 3) server1 = Inr (Some r, kv') \<and>
      rErr r = ErrNoKey \<and> Shards kv' = Shards server1) \<and>
   (\<exists>r kv'. ingestCommand 10 2 (getOp 2 ''x'' 3) server1 = Inr (Some r, kv') \<and>
      rValue r = ''A'' \<and> rErr r = OK \<and> Shards kv' = Shards server1) \<and>
   (\<exists>r kv'. ingestCommand 10 2 (writeOp ''Put'' 2 ''x'' ''B'' 3) server1 = Inr (Some r, kv') \<and>
      Data (Shards kv' ! 3) ''x'' = Some ''B'') \<and>
   (\<exists>r kv'. ingestCommand 10 2 (writeOp ''Append'' 2 ''x'' ''B'' 3) server1 = Inr (Some r, kv') \<and>
      Data (Shards kv' ! 3) ''x'' = Some ''AB'') \<and>
   (\<exists>r kv'. ingestCommand 10 2 (writeOp ''Append'' 2 ''z'' ''B'' 3) server1 = Inr (Some r, kv') \<and>
      Data (Shards kv' ! 3) ''z'' = Some ''B'')"
  using ingestCommand_client_ops [of "getOp 2 ''z'' 3"
      "\<lparr>cType = ''Get'', cKey = ''z'', cValue = [], cShard = 3\<rparr>" server1 10 2]
    ingestCommand_client_ops [of "getOp 2 ''x'' 3"
      "\<lparr>cType = ''Get'', cKey = ''x'', cValue = [], cShard = 3\<rparr>" server1 10 2]
    ingestCommand_client_ops [of "writeOp ''Put'' 2 ''x'' ''B'' 3"
      "\<lparr>cType = ''Put'', cKey = ''x'', cValue = ''B'', cShard = 3\<rparr>" server1 10 2]
    ingestCommand_client_ops [of "writeOp ''Append'' 2 ''x'' ''B'' 3"
      "\<lparr>cType = ''Append'', cKey = ''x'', cValue = ''B'', cShard = 3\<rparr>" server1 10 2]
    ingestCommand_client_ops [of "writeOp ''Append'' 2 ''z'' ''B'' 3"
      "\<lparr>cType = ''Append'', cKey = ''z'', cValue = ''B'', cShard = 3\<rparr>" server1 10 2]
  by (simp add: server1_def getOp_def writeOp_def Let_def ingestCommand_def applyClient_def
      at_def setAt_def recordResult_def dupResult_def)

section \<open>Reconfiguration\<close>

text \<open>
  One iteration of the loop of \<open>prepareMigration\<close> on a valid shard id, then the
  whole loop over distinct valid ids, then the call itself when it accepts.
\<close>

lemma migrateShard_eq:
  assumes "i < length shards" and "i < length (cfShards old)" and "i < length (cfShards new)"
  shows "migrateShard g old new i (shards, need) =
     Inr (shards[i := (shards ! i)\<lparr>Status :=
            statusAfter g (cfShards old ! i) (cfShards new ! i) (Status (shards ! i))\<rparr>],
          need \<or> (cfShards old ! i = g \<and> cfShards new ! i \<noteq> g))"
  using assms by (auto simp: migrateShard_def at_def setAt_def statusAfter_def)

lemma migrateLoop_spec:
  "distinct is \<Longrightarrow>
   \<forall>i\<in>set is. i < length shards \<and> i < length (cfShards old) \<and> i < length (cfShards new) \<Longrightarrow>
   \<exists>shards'.
     migrateLoop g old new is (shards, need) =
       Inr (shards', need \<or> (\<exists>i\<in>set is. cfShards old ! i = g \<and> cfShards new ! i \<noteq> g)) \<and>
     length shards' = length shards \<and>
     (\<forall>j<length shards. shards' ! j =
        (if j \<in> set is
         then (shards ! j)\<lparr>Status :=
                statusAfter g (cfShards old ! j) (cfShards new ! j) (Status (shards ! j))\<rparr>
         else shards ! j))"
proof (induction "is" arbitrary: shards need)
  case Nil
  then show ?case by simp
next
  case (Cons i "is")
  let ?sh = "shards[i := (shards ! i)\<lparr>Status :=
            statusAfter g (cfShards old ! i) (cfShards new ! i) (Status (shards ! i))\<rparr>]"
  let ?nd = "need \<or> (cfShards old ! i = g \<and> cfShards new ! i \<noteq> g)"
  from Cons.prems have i: "i < length shards" "i < length (cfShards old)"
    "i < length (cfShards new)" "i \<notin> set is" "distinct is"
    by auto
  have step: "migrateShard g old new i (shards, need) = Inr (?sh, ?nd)"
    using i by (simp add: migrateShard_eq)
  have "\<forall>k\<in>set is. k < length ?sh \<and> k < length (cfShards old) \<and> k < length (cfShards new)"
    using Cons.prems by simp
  from Cons.IH [OF i(5) this, of ?nd]
  obtain shards' where
    run: "migrateLoop g old new is (?sh, ?nd) =
       Inr (shards', ?nd \<or> (\<exists>k\<in>set is. cfShards old ! k = g \<and> cfShards new ! k \<noteq> g))"
    and len: "length shards' = length ?sh"
    and nth: "\<forall>j<length ?sh. shards' ! j =
        (if j \<in> set is
         then (?sh ! j)\<lparr>Status :=
                statusAfter g (cfShards old ! j) (cfShards new ! j) (Status (?sh ! j))\<rparr>
         else ?sh ! j)"
    by blast
  have "migrateLoop g old new (i # is) (shards, need) =
       Inr (shards', need \<or> (\<exists>k\<in>set (i # is). cfShards old ! k = g \<and> cfShards new ! k \<noteq> g))"
    using step run by auto
  moreover have "length shards' = length shards"
    using len by simp
  moreover have "\<forall>j<length shards. shards' ! j =
        (if j \<in> set (i # is)
         then (shards ! j)\<lparr>Status :=
                statusAfter g (cfShards old ! j) (cfShards new ! j) (Status (shards ! j))\<rparr>
         else shards ! j)"
  proof (intro allI impI)
    fix j assume j: "j < length shards"
    show "shards' ! j =
        (if j \<in> set (i # is)
         then (shards ! j)\<lparr>Status :=
                statusAfter g (cfShards old ! j) (cfShards new ! j) (Status (shards ! j))\<rparr>
         else shards ! j)"
    proof (cases "j = i")
      case True
      with nth j i show ?thesis by simp
    next
      case False
      with nth j i show ?thesis by simp
    qed
  qed
  ultimately show ?case by blast
qed

lemma prepareMigration_accept:
  assumes "Num (Config kv) < Num new"
    and "length (cfShards (Config kv)) = NShards"
    and "length (cfShards new) = NShards"
    and "NShards \<le> length (Shards kv)"
  shows "\<exists>shards'.
     prepareMigration NShards new kv =
       Inr (\<exists>i<NShards. cfShards (Config kv) ! i = gid kv \<and> cfShards new ! i \<noteq> gid kv,
            kv\<lparr>Shards := shards', Config := new\<rparr>) \<and>
     length shards' = length (Shards kv) \<and>
     (\<forall>j<length (Shards kv). shards' ! j =
        (if j < NShards
         then (Shards kv ! j)\<lparr>Status :=
                statusAfter (gid kv) (cfShards (Config kv) ! j) (cfShards new ! j)
                  (Status (Shards kv ! j))\<rparr>
         else Shards kv ! j))"
proof -
  have "\<forall>i\<in>set [0..<NShards]. i < length (Shards kv) \<and> i < length (cfShards (Config kv)) \<and>
      i < length (cfShards new)"
    using assms by simp
  from migrateLoop_spec [OF _ this, of "gid kv" False]
  obtain shards' where
    run: "migrateLoop (gid kv) (Config kv) new [0..<NShards] (Shards kv, False) =
       Inr (shards', False \<or> (\<exists>i\<in>set [0..<NShards].
              cfShards (Config kv) ! i = gid kv \<and> cfShards new ! i \<noteq> gid kv))"
    and len: "length shards' = length (Shards kv)"
    and nth: "\<forall>j<length (Shards kv). shards' ! j =
        (if j \<in> set [0..<NShards]
         then (Shards kv ! j)\<lparr>Status :=
                statusAfter (gid kv) (cfShards (Config kv) ! j) (cfShards new ! j)
                  (Status (Shards kv ! j))\<rparr>
         else Shards kv ! j)"
    by auto
  have "prepareMigration NShards new kv =
       Inr (\<exists>i<NShards. cfShards (Config kv) ! i = gid kv \<and> cfShards new ! i \<noteq> gid kv,
            kv\<lparr>Shards := shards', Config := new\<rparr>)"
    using assms(1) run by (simp add: prepareMigration_def Bex_def)
  with len nth show ?thesis by auto
qed

text \<open>
  What a call of \<open>prepareMigration\<close> can do to the stored configuration: leave it,
  or replace it by one of a greater number. The numbers collected along a run are therefore increasing and above the
  number the run started from.
\<close>

lemma prepareMigration_Config:
  "prepareMigration NShards c kv = Inr (need, kv') \<Longrightarrow>
   Config kv' = Config kv \<or> (Config kv' = c \<and> Num (Config kv) < Num c)"
  by (auto simp: prepareMigration_def split: if_splits sum.splits)

lemma appliedNums_increasing:
  "sorted_wrt (<) (appliedNums NShards cs kv) \<and>
   (\<forall>n\<in>set (appliedNums NShards cs kv). Num (Config kv) < n)"
proof (induction cs arbitrary: kv)
  case Nil
  then show ?case by simp
next
  case (Cons c cs)
  show ?case
  proof (cases "prepareMigration NShards c kv")
    case (Inl e)
    then show ?thesis by simp
  next
    case (Inr p)
    obtain need kv' where p: "p = (need, kv')" by (cases p)
    from Inr p have step: "prepareMigration NShards c kv = Inr (need, kv')" by simp
    note ih = Cons.IH [of kv']
    from prepareMigration_Config [OF step]
    show ?thesis
    proof
      assume same: "Config kv' = Config kv"
      with step ih show ?thesis by simp
    next
      assume new: "Config kv' = c \<and> Num (Config kv) < Num c"
      then have "Config kv' \<noteq> Config kv" by auto
      with step ih new show ?thesis by (auto simp: sorted_wrt_append)
    qed
  qed
qed

text \<open>
  C4. \<open>prepareMigration\<close> with a configuration whose number is not greater than the
  current one returns false and the server exactly as it was (configuration, shard
  statuses, shard data and all else). With a greater number, on a server whose arrays
  have \<open>NShards\<close> entries, it returns with the new configuration stored. So the
  configuration is replaced exactly when the new number is strictly greater, and along
  any sequence of calls the numbers of the configurations taken on, after the one the
  server started with, are strictly increasing.
\<close>

theorem prepareMigration_num:
  "(Num new \<le> Num (Config kv) \<longrightarrow> prepareMigration NShards new kv = Inr (False, kv)) \<and>
   (Num (Config kv) < Num new \<and> length (cfShards (Config kv)) = NShards \<and>
    length (cfShards new) = NShards \<and> NShards \<le> length (Shards kv) \<longrightarrow>
      (\<exists>need kv'. prepareMigration NShards new kv = Inr (need, kv') \<and> Config kv' = new)) \<and>
   sorted_wrt (<) (Num (Config kv) # appliedNums NShards cs kv)"
proof (intro conjI impI)
  assume "Num new \<le> Num (Config kv)"
  then show "prepareMigration NShards new kv = Inr (False, kv)"
    by (simp add: prepareMigration_def)
next
  assume h: "Num (Config kv) < Num new \<and> length (cfShards (Config kv)) = NShards \<and>
    length (cfShards new) = NShards \<and> NShards \<le> length (Shards kv)"
  then obtain shards' where
    "prepareMigration NShards new kv =
       Inr (\<exists>i<NShards. cfShards (Config kv) ! i = gid kv \<and> cfShards new ! i \<noteq> gid kv,
            kv\<lparr>Shards := shards', Config := new\<rparr>)"
    using prepareMigration_accept [of kv new NShards] by blast
  then show "\<exists>need kv'. prepareMigration NShards new kv = Inr (need, kv') \<and> Config kv' = new"
    by simp
next
  show "sorted_wrt (<) (Num (Config kv) # appliedNums NShards cs kv)"
    using appliedNums_increasing [of NShards cs kv] by simp
qed

theorem prepareMigration_num_witness:
  "prepareMigration 10 config1 server1 = Inr (False, server1) \<and>
   (\<exists>need kv'. prepareMigration 10 config2 server1 = Inr (need, kv') \<and> Config kv' = config2) \<and>
   appliedNums 10 [config2, config1, config2] server1 = [2]"
  using prepareMigration_num [of config1 server1 10 "[]"]
    prepareMigration_num [of config2 server1 10 "[config2, config1, config2]"]
  by (simp add: server1_def config1_def config2_def prepareMigration_def migrateShard_def
      at_def setAt_def upt_ten)

text \<open>
  C5. When \<open>prepareMigration\<close> accepts a configuration, then for every shard id: a
  shard that was this group's and is assigned elsewhere becomes \<open>MigratingOut\<close>; a
  shard that is now this group's, was another group's and not the sentinel 0's,
  becomes \<open>MigratingIn\<close>; a shard whose assignment did not change keeps its status
  (as does every shard in neither of the first two cases: the status is \<open>statusAfter\<close>
  in all cases); no shard's data changes. The call returns true exactly when some
  shard was this group's and is assigned elsewhere, that is, was marked
  \<open>MigratingOut\<close> by this call.
\<close>

theorem prepareMigration_statuses:
  assumes "Num (Config kv) < Num new"
    and "length (cfShards (Config kv)) = NShards"
    and "length (cfShards new) = NShards"
    and "NShards \<le> length (Shards kv)"
  shows "\<exists>need kv'.
     prepareMigration NShards new kv = Inr (need, kv') \<and>
     length (Shards kv') = length (Shards kv) \<and>
     (\<forall>i<NShards.
        (cfShards (Config kv) ! i = gid kv \<and> cfShards new ! i \<noteq> gid kv \<longrightarrow>
           Status (Shards kv' ! i) = ShardMigrationOut) \<and>
        (cfShards new ! i = gid kv \<and> cfShards (Config kv) ! i \<noteq> gid kv \<and>
         cfShards (Config kv) ! i \<noteq> 0 \<longrightarrow>
           Status (Shards kv' ! i) = ShardMigrationIn) \<and>
        (cfShards (Config kv) ! i = cfShards new ! i \<longrightarrow>
           Status (Shards kv' ! i) = Status (Shards kv ! i)) \<and>
        Status (Shards kv' ! i) =
          statusAfter (gid kv) (cfShards (Config kv) ! i) (cfShards new ! i)
            (Status (Shards kv ! i)) \<and>
        Data (Shards kv' ! i) = Data (Shards kv ! i)) \<and>
     (need \<longleftrightarrow> (\<exists>i<NShards. cfShards (Config kv) ! i = gid kv \<and> cfShards new ! i \<noteq> gid kv))"
proof -
  from prepareMigration_accept [OF assms]
  obtain shards' where
    run: "prepareMigration NShards new kv =
       Inr (\<exists>i<NShards. cfShards (Config kv) ! i = gid kv \<and> cfShards new ! i \<noteq> gid kv,
            kv\<lparr>Shards := shards', Config := new\<rparr>)"
    and len: "length shards' = length (Shards kv)"
    and nth: "\<forall>j<length (Shards kv). shards' ! j =
        (if j < NShards
         then (Shards kv ! j)\<lparr>Status :=
                statusAfter (gid kv) (cfShards (Config kv) ! j) (cfShards new ! j)
                  (Status (Shards kv ! j))\<rparr>
         else Shards kv ! j)"
    by blast
  have each: "\<forall>i<NShards. shards' ! i = (Shards kv ! i)\<lparr>Status :=
                statusAfter (gid kv) (cfShards (Config kv) ! i) (cfShards new ! i)
                  (Status (Shards kv ! i))\<rparr>"
    using nth assms(4) by simp
  show ?thesis
    using run len each by (auto simp: statusAfter_def)
qed

theorem prepareMigration_statuses_witness:
  "\<exists>need kv'.
     prepareMigration 10 config2 server1 = Inr (need, kv') \<and> need \<and>
     Status (Shards kv' ! 3) = ShardMigrationOut \<and>
     Status (Shards kv' ! 7) = ShardMigrationIn \<and>
     Status (Shards kv' ! 0) = ShardOK \<and>
     Data (Shards kv' ! 3) ''x'' = Some ''A''"
  using prepareMigration_statuses [of server1 config2 10]
  by (simp add: server1_def config1_def config2_def prepareMigration_def migrateShard_def
      at_def setAt_def upt_ten) blast

section \<open>Installing migrated shards\<close>

text \<open>
  The copy made by \<open>copyOfData\<close> has the entries of its argument. The loop over the
  listed shard ids, all valid and each awaited shard with data in the payload, replaces
  every listed shard that is \<open>MigratingIn\<close> and leaves every other shard.
\<close>

lemma copyOfData_same: "copyOfData m = m"
  by (simp add: copyOfData_def)

lemma Shard_installed:
  "(sh::Shard)\<lparr>Data := m, Status := ShardOK\<rparr> = \<lparr>Status = ShardOK, Data = m\<rparr>"
  by (cases sh) simp

lemma installShards_spec:
  "\<forall>sid\<in>set sids. 0 \<le> sid \<and> sid < int (length shards) \<and>
      (Status (shards ! nat sid) = ShardMigrationIn \<longrightarrow> sid < int (length data)) \<Longrightarrow>
   \<exists>shards'.
     installShards data sids shards = Inr shards' \<and>
     length shards' = length shards \<and>
     (\<forall>j<length shards. shards' ! j =
        (if int j \<in> set sids \<and> Status (shards ! j) = ShardMigrationIn
         then \<lparr>Status = ShardOK, Data = data ! j\<rparr>
         else shards ! j))"
proof (induction sids arbitrary: shards)
  case Nil
  then show ?case by simp
next
  case (Cons sid sids)
  from Cons.prems have sid: "0 \<le> sid" "sid < int (length shards)"
    and dat: "Status (shards ! nat sid) = ShardMigrationIn \<Longrightarrow> sid < int (length data)"
    and rest: "\<forall>t\<in>set sids. 0 \<le> t \<and> t < int (length shards) \<and>
      (Status (shards ! nat t) = ShardMigrationIn \<longrightarrow> t < int (length data))"
    by auto
  show ?case
  proof (cases "Status (shards ! nat sid) = ShardMigrationIn")
    case False
    from Cons.IH [OF rest] obtain shards' where
      run: "installShards data sids shards = Inr shards'"
      and len: "length shards' = length shards"
      and nth: "\<forall>j<length shards. shards' ! j =
        (if int j \<in> set sids \<and> Status (shards ! j) = ShardMigrationIn
         then \<lparr>Status = ShardOK, Data = data ! j\<rparr>
         else shards ! j)"
      by blast
    have "installShards data (sid # sids) shards = Inr shards'"
      using False sid run by (simp add: at_def)
    moreover have "\<forall>j<length shards. shards' ! j =
        (if int j \<in> set (sid # sids) \<and> Status (shards ! j) = ShardMigrationIn
         then \<lparr>Status = ShardOK, Data = data ! j\<rparr>
         else shards ! j)"
      using nth False sid by auto
    ultimately show ?thesis using len by blast
  next
    case True
    let ?sh = "shards[nat sid := \<lparr>Status = ShardOK, Data = data ! nat sid\<rparr>]"
    have "\<forall>t\<in>set sids. 0 \<le> t \<and> t < int (length ?sh) \<and>
      (Status (?sh ! nat t) = ShardMigrationIn \<longrightarrow> t < int (length data))"
    proof
      fix t assume t: "t \<in> set sids"
      with rest have r: "0 \<le> t" "t < int (length shards)"
        "Status (shards ! nat t) = ShardMigrationIn \<longrightarrow> t < int (length data)"
        by auto
      show "0 \<le> t \<and> t < int (length ?sh) \<and>
        (Status (?sh ! nat t) = ShardMigrationIn \<longrightarrow> t < int (length data))"
      proof (cases "nat t = nat sid")
        case True
        with r sid show ?thesis by simp
      next
        case False
        with r show ?thesis by simp
      qed
    qed
    from Cons.IH [OF this] obtain shards' where
      run: "installShards data sids ?sh = Inr shards'"
      and len: "length shards' = length ?sh"
      and nth: "\<forall>j<length ?sh. shards' ! j =
        (if int j \<in> set sids \<and> Status (?sh ! j) = ShardMigrationIn
         then \<lparr>Status = ShardOK, Data = data ! j\<rparr>
         else ?sh ! j)"
      by blast
    have "installShards data (sid # sids) shards = Inr shards'"
      using True sid dat run by (simp add: at_def copyOfData_same Shard_installed)
    moreover have "\<forall>j<length shards. shards' ! j =
        (if int j \<in> set (sid # sids) \<and> Status (shards ! j) = ShardMigrationIn
         then \<lparr>Status = ShardOK, Data = data ! j\<rparr>
         else shards ! j)"
    proof (intro allI impI)
      fix j assume j: "j < length shards"
      show "shards' ! j =
        (if int j \<in> set (sid # sids) \<and> Status (shards ! j) = ShardMigrationIn
         then \<lparr>Status = ShardOK, Data = data ! j\<rparr>
         else shards ! j)"
      proof (cases "j = nat sid")
        case True
        with nth j \<open>Status (shards ! nat sid) = ShardMigrationIn\<close> sid show ?thesis by simp
      next
        case False
        then have "int j \<noteq> sid" using sid by auto
        with nth j False show ?thesis by simp
      qed
    qed
    ultimately show ?thesis using len by auto
  qed
qed


lemma dupResult_ids:
  "rClientId (dupResult kv op) = ClientId op \<and> rSN (dupResult kv op) = SN op"
  by (simp add: dupResult_def Let_def split: option.splits)

lemma dupResult_lastApplied: "dupResult (kv\<lparr>lastApplied := i\<rparr>) op = dupResult kv op"
  by (simp add: dupResult_def)

lemma dupResult_OK:
  "\<forall>e. DupTable kv (ClientId op) = Some e \<and> dSN e = SN op \<longrightarrow> dErr e = OK \<Longrightarrow>
   rErr (dupResult kv op) = OK"
  by (simp add: dupResult_def Let_def split: option.splits)

lemma dupResult_cached:
  "DupTable kv (ClientId op) = Some \<lparr>dSN = SN op, dValue = v, dErr = e\<rparr> \<Longrightarrow>
   dupResult kv op = \<lparr>rClientId = ClientId op, rSN = SN op, rValue = v, rErr = e\<rparr>"
  by (simp add: dupResult_def Let_def)

lemma recordResult_fields:
  "DupTable (recordResult index r kv) =
     (DupTable kv)(rClientId r \<mapsto> \<lparr>dSN = rSN r, dValue = rValue r, dErr = rErr r\<rparr>) \<and>
   Shards (recordResult index r kv) = Shards kv \<and>
   Config (recordResult index r kv) = Config kv"
  by (simp add: recordResult_def Let_def)

lemma ingestCommand_MigrationIn_step:
  assumes "Playload op = Server pl" and "sType pl = ''MigrationIn''"
    and "\<forall>sid\<in>set (sSids pl). 0 \<le> sid \<and> sid < int (length (Shards kv)) \<and>
      (Status (Shards kv ! nat sid) = ShardMigrationIn \<longrightarrow> sid < int (length (sData pl)))"
  shows "\<exists>shards'.
     ingestCommand NShards index op kv =
       Inr (Some (dupResult kv op),
            recordResult index (dupResult kv op) (kv\<lparr>lastApplied := index, Shards := shards'\<rparr>)) \<and>
     length shards' = length (Shards kv) \<and>
     (\<forall>j<length (Shards kv). shards' ! j =
        (if int j \<in> set (sSids pl) \<and> Status (Shards kv ! j) = ShardMigrationIn
         then \<lparr>Status = ShardOK, Data = sData pl ! j\<rparr>
         else Shards kv ! j))"
proof -
  from installShards_spec [OF assms(3)] obtain shards' where
    run: "installShards (sData pl) (sSids pl) (Shards kv) = Inr shards'"
    and len: "length shards' = length (Shards kv)"
    and nth: "\<forall>j<length (Shards kv). shards' ! j =
        (if int j \<in> set (sSids pl) \<and> Status (Shards kv ! j) = ShardMigrationIn
         then \<lparr>Status = ShardOK, Data = sData pl ! j\<rparr>
         else Shards kv ! j)"
    by blast
  have "ingestCommand NShards index op kv =
       Inr (Some (dupResult kv op),
            recordResult index (dupResult kv op) (kv\<lparr>lastApplied := index, Shards := shards'\<rparr>))"
    using assms(1,2) run by (simp add: ingestCommand_def Let_def dupResult_lastApplied)
  with len nth show ?thesis by blast
qed

text \<open>
  C6. The applier on a MigrationIn payload. Every listed shard that is
  \<open>MigratingIn\<close> gets the payload's map for that shard as its data and becomes
  \<open>OK\<close>; every shard that is not listed, or is listed and not \<open>MigratingIn\<close>, is as
  before. The result is \<open>OK\<close> whether or not a shard was installed, and it is written
  to the duplicate table under the client id and serial of the operation, which the
  sender sets to its group id and the configuration number. Applying the same entry
  again, at any index, changes neither the shards nor the table nor the configuration
  and gives \<open>OK\<close> again. The listed ids are valid shard ids, the payload has data for
  the awaited ones, and whatever the table holds for the sender under this serial is an
  \<open>OK\<close>, as every record of a MigrationIn is.
\<close>

theorem ingestCommand_MigrationIn:
  assumes "Playload op = Server pl" and "sType pl = ''MigrationIn''"
    and "\<forall>sid\<in>set (sSids pl). 0 \<le> sid \<and> sid < int (length (Shards kv)) \<and>
      (Status (Shards kv ! nat sid) = ShardMigrationIn \<longrightarrow> sid < int (length (sData pl)))"
    and "\<forall>e. DupTable kv (ClientId op) = Some e \<and> dSN e = SN op \<longrightarrow> dErr e = OK"
  shows "\<exists>r kv'.
     ingestCommand NShards index op kv = Inr (Some r, kv') \<and>
     rErr r = OK \<and>
     DupTable kv' = (DupTable kv)(ClientId op \<mapsto> \<lparr>dSN = SN op, dValue = rValue r, dErr = OK\<rparr>) \<and>
     Config kv' = Config kv \<and>
     length (Shards kv') = length (Shards kv) \<and>
     (\<forall>j<length (Shards kv). Shards kv' ! j =
        (if int j \<in> set (sSids pl) \<and> Status (Shards kv ! j) = ShardMigrationIn
         then \<lparr>Status = ShardOK, Data = sData pl ! j\<rparr>
         else Shards kv ! j)) \<and>
     (\<exists>r2 kv2.
        ingestCommand NShards index2 op kv' = Inr (Some r2, kv2) \<and>
        rErr r2 = OK \<and>
        Shards kv2 = Shards kv' \<and> DupTable kv2 = DupTable kv' \<and> Config kv2 = Config kv')"
proof -
  let ?r = "dupResult kv op"
  from ingestCommand_MigrationIn_step [OF assms(1,2,3), of NShards index]
  obtain shards' where
    run: "ingestCommand NShards index op kv =
       Inr (Some ?r, recordResult index ?r (kv\<lparr>lastApplied := index, Shards := shards'\<rparr>))"
    and len: "length shards' = length (Shards kv)"
    and nth: "\<forall>j<length (Shards kv). shards' ! j =
        (if int j \<in> set (sSids pl) \<and> Status (Shards kv ! j) = ShardMigrationIn
         then \<lparr>Status = ShardOK, Data = sData pl ! j\<rparr>
         else Shards kv ! j)"
    by blast
  let ?kv' = "recordResult index ?r (kv\<lparr>lastApplied := index, Shards := shards'\<rparr>)"
  have ok: "rErr ?r = OK"
    using assms(4) by (rule dupResult_OK)
  have ids: "rClientId ?r = ClientId op" "rSN ?r = SN op"
    using dupResult_ids [of kv op] by simp_all
  have tab: "DupTable ?kv' =
      (DupTable kv)(ClientId op \<mapsto> \<lparr>dSN = SN op, dValue = rValue ?r, dErr = OK\<rparr>)"
    by (simp add: recordResult_fields ids ok)
  have sh: "Shards ?kv' = shards'" and cf: "Config ?kv' = Config kv"
    by (simp_all add: recordResult_fields)
  have settled: "\<forall>sid\<in>set (sSids pl). Status (shards' ! nat sid) \<noteq> ShardMigrationIn"
  proof
    fix sid assume m: "sid \<in> set (sSids pl)"
    with assms(3) have "0 \<le> sid" "nat sid < length (Shards kv)" by auto
    with nth m show "Status (shards' ! nat sid) \<noteq> ShardMigrationIn" by auto
  qed
  have range': "\<forall>sid\<in>set (sSids pl). 0 \<le> sid \<and> sid < int (length (Shards ?kv')) \<and>
      (Status (Shards ?kv' ! nat sid) = ShardMigrationIn \<longrightarrow> sid < int (length (sData pl)))"
    using assms(3) settled by (simp add: sh len)
  let ?r2 = "dupResult ?kv' op"
  from ingestCommand_MigrationIn_step [OF assms(1,2) range', of NShards index2]
  obtain shards2 where
    run2: "ingestCommand NShards index2 op ?kv' =
       Inr (Some ?r2, recordResult index2 ?r2 (?kv'\<lparr>lastApplied := index2, Shards := shards2\<rparr>))"
    and len2: "length shards2 = length (Shards ?kv')"
    and nth2: "\<forall>j<length (Shards ?kv'). shards2 ! j =
        (if int j \<in> set (sSids pl) \<and> Status (Shards ?kv' ! j) = ShardMigrationIn
         then \<lparr>Status = ShardOK, Data = sData pl ! j\<rparr>
         else Shards ?kv' ! j)"
    by blast
  have same: "shards2 = shards'"
  proof (rule nth_equalityI)
    show "length shards2 = length shards'" using len2 sh by simp
  next
    fix j assume "j < length shards2"
    then have j: "j < length (Shards ?kv')" using len2 by simp
    have "\<not> (int j \<in> set (sSids pl) \<and> Status (shards' ! j) = ShardMigrationIn)"
      using settled by force
    moreover from nth2 j have "shards2 ! j =
        (if int j \<in> set (sSids pl) \<and> Status (shards' ! j) = ShardMigrationIn
         then \<lparr>Status = ShardOK, Data = sData pl ! j\<rparr>
         else shards' ! j)"
      unfolding sh by blast
    ultimately show "shards2 ! j = shards' ! j" by auto
  qed
  have r2: "?r2 = \<lparr>rClientId = ClientId op, rSN = SN op, rValue = rValue ?r, rErr = OK\<rparr>"
    by (rule dupResult_cached) (simp add: tab)
  let ?kv2 = "recordResult index2 ?r2 (?kv'\<lparr>lastApplied := index2, Shards := shards2\<rparr>)"
  have "rErr ?r2 = OK" using r2 by simp
  moreover have "Shards ?kv2 = Shards ?kv'"
    by (simp add: recordResult_fields same sh)
  moreover have "DupTable ?kv2 = DupTable ?kv'"
    by (simp add: recordResult_fields [of index2] r2 tab)
  moreover have "Config ?kv2 = Config ?kv'"
    by (simp add: recordResult_fields)
  ultimately have retry: "\<exists>r2 kv2.
        ingestCommand NShards index2 op ?kv' = Inr (Some r2, kv2) \<and>
        rErr r2 = OK \<and>
        Shards kv2 = Shards ?kv' \<and> DupTable kv2 = DupTable ?kv' \<and> Config kv2 = Config ?kv'"
    using run2 by blast
  show ?thesis
    using run ok tab cf len nth retry by (auto simp: sh)
qed

theorem ingestCommand_MigrationIn_witness:
  "\<exists>r kv'.
     ingestCommand 10 3 (migrationInOp 10 (migArgs 2)) server2 = Inr (Some r, kv') \<and>
     rErr r = OK \<and>
     Status (Shards kv' ! 7) = ShardOK \<and>
     Data (Shards kv' ! 7) ''y'' = Some ''B'' \<and>
     Status (Shards kv' ! 3) = ShardMigrationOut \<and>
     Data (Shards kv' ! 3) ''x'' = Some ''A'' \<and>
     DupTable kv' 200 = Some \<lparr>dSN = 2, dValue = [], dErr = OK\<rparr> \<and>
     (\<exists>r2 kv2.
        ingestCommand 10 4 (migrationInOp 10 (migArgs 2)) kv' = Inr (Some r2, kv2) \<and>
        rErr r2 = OK \<and> Shards kv2 = Shards kv' \<and> DupTable kv2 = DupTable kv')"
  using ingestCommand_MigrationIn [of "migrationInOp 10 (migArgs 2)"
      "\<lparr>sType = ''MigrationIn'', sSids = [7, 3],
        sData = (replicate 10 Map.empty)[7 := [''y'' \<mapsto> ''B'']], sConfig = zeroConfig 10\<rparr>"
      server2 10 3 4]
  by (simp add: server2_def server1_def migArgs_def migrationInOp_def ingestCommand_def
      dupResult_def recordResult_def at_def copyOfData_def)

end
